theory Spec2Isabelle
  imports Complex_Main "HOL-Library.AList" "HOL-Library.Log_Nat"
begin

section \<open>Exceptions of the script\<close>

text \<open>
  Every exception the modelled functions can raise is a value of this type; a function that
  may raise returns \<open>error + 'a\<close>, with \<open>Inl\<close> for the exception that leaves it.
\<close>

datatype error =
    ConnectionError
  | HTTPError nat
  | AttributeError
  | IndexError
  | KeyError string
  | ValueError
  | InvalidIndexError
  | ZeroDivisionError
  | OverflowError

section \<open>Ticker sources\<close>

text \<open>
  The three ticker sources read a Wikipedia page with \<open>requests.get\<close> and BeautifulSoup.
  The network is the parameter \<open>get\<close>: for a URL it either raises (\<open>Inl\<close>) or returns a
  response. Of the parsed page the model keeps what the functions look at: the tables in
  document order, with the \<open>id\<close> attribute, the list of CSS classes, and the rows (\<open>tr\<close>);
  of a row its text and its \<open>td\<close> cells; of a cell its text fragments, whose concatenation
  is the cell's \<open>.text\<close>.
\<close>

record tr =
  row_text :: string
  tds :: "string list list"

record table =
  table_id :: "string option"
  classes :: "string list"
  trs :: "tr list"

record response =
  status_code :: nat
  tables :: "table list"

type_synonym http = "string \<Rightarrow> error + response"

text \<open>
  \<open>str.strip()\<close>: whitespace is removed at both ends. Strings are byte strings here, so
  only the ASCII whitespace characters are known.
\<close>

definition isspace :: "char \<Rightarrow> bool" where
  "isspace c = (let n = of_char c :: nat in (9 \<le> n \<and> n \<le> 13) \<or> (28 \<le> n \<and> n \<le> 32))"

definition strip :: "string \<Rightarrow> string" where
  "strip s = rev (dropWhile isspace (rev (dropWhile isspace s)))"

text \<open>\<open>cell.text\<close>, and \<open>cell.get_text(strip=True)\<close>, which strips every fragment and drops
  the empty ones before joining.\<close>

definition cell_text :: "string list \<Rightarrow> string" where
  "cell_text fragments = concat fragments"

definition get_text_strip :: "string list \<Rightarrow> string" where
  "get_text_strip fragments = concat (filter (\<lambda>s. s \<noteq> []) (map strip fragments))"

text \<open>\<open>sub in s\<close> on strings.\<close>

fun contains :: "string \<Rightarrow> string \<Rightarrow> bool" where
  "contains sub [] = (sub = [])"
| "contains sub (c # cs) = (take (length sub) (c # cs) = sub \<or> contains sub cs)"

text \<open>The three pages.\<close>

definition sp500_url :: string where
  "sp500_url = ''https://en.wikipedia.org/wiki/List_of_S%26P_500_companies''"

definition dow_jones_url :: string where
  "dow_jones_url = ''https://en.wikipedia.org/wiki/Dow_Jones_Industrial_Average''"

definition nasdaq_100_url :: string where
  "nasdaq_100_url = ''https://en.wikipedia.org/wiki/Nasdaq-100''"

text \<open>
  \<open>fetch_sp500_tickers\<close>: no exception is handled. \<open>raise_for_status\<close> raises for a 4xx or
  5xx status; \<open>soup.find\<close> returns \<open>None\<close> when no table has the id, and the attribute access
  on it raises; a row without a \<open>td\<close> cell raises at index 0.
\<close>

fun sp500_rows :: "tr list \<Rightarrow> error + string list" where
  "sp500_rows [] = Inr []"
| "sp500_rows (row # rest) =
     (case tds row of
        [] \<Rightarrow> Inl IndexError
      | cell # _ \<Rightarrow>
          (case sp500_rows rest of
             Inl e \<Rightarrow> Inl e
           | Inr tickers \<Rightarrow> Inr (strip (cell_text cell) # tickers)))"

definition fetch_sp500_tickers :: "http \<Rightarrow> error + string list" where
  "fetch_sp500_tickers get =
     (case get sp500_url of
        Inl e \<Rightarrow> Inl e
      | Inr response \<Rightarrow>
          if 400 \<le> status_code response \<and> status_code response < 600
          then Inl (HTTPError (status_code response))
          else
            (case find (\<lambda>t. table_id t = Some ''constituents'') (tables response) of
               None \<Rightarrow> Inl AttributeError
             | Some table \<Rightarrow> sp500_rows (drop 1 (trs table))))"

text \<open>
  \<open>get_dow_jones_tickers\<close>: the whole body is inside \<open>try\<close>, and the handler returns the
  empty list, as does a status other than 200. A class given as \<open>'wikitable sortable'\<close>
  matches a table whose class attribute is exactly that string. A row with a single \<open>td\<close>
  cell raises at index 1, inside the \<open>try\<close>.
\<close>

fun dow_rows :: "tr list \<Rightarrow> error + string list" where
  "dow_rows [] = Inr []"
| "dow_rows (row # rest) =
     (case tds row of
        [] \<Rightarrow> dow_rows rest
      | [cell] \<Rightarrow> Inl IndexError
      | cell0 # cell1 # _ \<Rightarrow>
          (case dow_rows rest of
             Inl e \<Rightarrow> Inl e
           | Inr tickers \<Rightarrow> Inr (get_text_strip cell1 # tickers)))"

definition get_dow_jones_tickers :: "http \<Rightarrow> string list" where
  "get_dow_jones_tickers get =
     (case get dow_jones_url of
        Inl e \<Rightarrow> []
      | Inr response \<Rightarrow>
          if status_code response = 200
          then
            (case find (\<lambda>t. classes t = [''wikitable'', ''sortable'']) (tables response) of
               None \<Rightarrow> []
             | Some table \<Rightarrow>
                 (case dow_rows (drop 1 (trs table)) of
                    Inl e \<Rightarrow> []
                  | Inr tickers \<Rightarrow> tickers))
          else [])"

text \<open>
  \<open>get_nasdaq_100_ticker_symbols\<close>: an exception of \<open>requests.get\<close> is not handled and the
  status is not looked at. The table is the first of class \<open>wikitable\<close> whose first row
  has \<open>Symbol\<close> in its text; without one the result is the empty list.
\<close>

fun nasdaq_rows :: "tr list \<Rightarrow> string list" where
  "nasdaq_rows [] = []"
| "nasdaq_rows (row # rest) =
     (case tds row of
        cell0 # cell1 # _ \<Rightarrow> strip (cell_text cell1) # nasdaq_rows rest
      | _ \<Rightarrow> nasdaq_rows rest)"

definition symbol_table :: "table \<Rightarrow> bool" where
  "symbol_table t =
     (case trs t of [] \<Rightarrow> False | headers # _ \<Rightarrow> contains ''Symbol'' (row_text headers))"

definition get_nasdaq_100_ticker_symbols :: "http \<Rightarrow> error + string list" where
  "get_nasdaq_100_ticker_symbols get =
     (case get nasdaq_100_url of
        Inl e \<Rightarrow> Inl e
      | Inr response \<Rightarrow>
          (case find symbol_table (filter (\<lambda>t. ''wikitable'' \<in> set (classes t)) (tables response)) of
             None \<Rightarrow> Inr []
           | Some nasdaq_table \<Rightarrow> Inr (nasdaq_rows (drop 1 (trs nasdaq_table)))))"

section \<open>Universe builder\<close>

text \<open>
  \<open>merge_and_deduplicate_dynamic\<close> builds the set union of its lists and turns it into a
  list. The order in which Python iterates a set is not fixed by the language; it is the
  parameter \<open>order\<close>, and \<open>enumerates order S\<close> says what every such order does: it
  lists the elements of \<open>S\<close>, each once.
\<close>

definition merge_and_deduplicate_dynamic ::
  "(string set \<Rightarrow> string list) \<Rightarrow> string list list \<Rightarrow> string list" where
  "merge_and_deduplicate_dynamic order ticker_lists = order (\<Union> (set (map set ticker_lists)))"

definition enumerates :: "(string set \<Rightarrow> string list) \<Rightarrow> string set \<Rightarrow> bool" where
  "enumerates order S = (set (order S) = S \<and> distinct (order S))"

text \<open>The normalisation of line 280: \<open>replace('.', '-')\<close> for the two listed symbols.\<close>

definition replace_dot :: "string \<Rightarrow> string" where
  "replace_dot s = map (\<lambda>c. if c = CHR ''.'' then CHR ''-'' else c) s"

definition normalize_ticker :: "string \<Rightarrow> string" where
  "normalize_ticker ticker =
     (if ticker = ''BRK.B'' \<or> ticker = ''BF.B'' then replace_dot ticker else ticker)"

text \<open>Lines 277 and 280 of the script: the merge, then the normalisation of every element
  of the merged list.\<close>

definition universe :: "(string set \<Rightarrow> string list) \<Rightarrow> string list list \<Rightarrow> string list" where
  "universe order ticker_lists =
     map normalize_ticker (merge_and_deduplicate_dynamic order ticker_lists)"

text \<open>Lines 274 to 280: the three sources in the order they are called, then the
  universe of their results. An exception of a source ends the run.\<close>

definition build_universe :: "(string set \<Rightarrow> string list) \<Rightarrow> http \<Rightarrow> error + string list" where
  "build_universe order get =
     (case fetch_sp500_tickers get of
        Inl e \<Rightarrow> Inl e
      | Inr sp_500_tickers \<Rightarrow>
          (let dow_jones_tickers = get_dow_jones_tickers get
           in case get_nasdaq_100_ticker_symbols get of
                Inl e \<Rightarrow> Inl e
              | Inr nasdaq_tickers \<Rightarrow>
                  Inr (universe order [nasdaq_tickers, sp_500_tickers, dow_jones_tickers])))"

section \<open>Double-precision numbers\<close>

text \<open>
  Python floats and the cells of a pandas table are IEEE 754 binary64 numbers. A value is
  not-a-number (the null of pandas), an infinity, or a finite number, given by its exact
  rational value. The sign of zero is not modelled.
\<close>

datatype fl = NaN | NInf | PInf | Fin rat

text \<open>Rounding to the nearest integer, a tie going to the even one.\<close>

definition round_half_even :: "rat \<Rightarrow> int" where
  "round_half_even q =
     (let f = \<lfloor>q\<rfloor>; d = q - of_int f
      in if d < 1 / 2 then f else if 1 / 2 < d then f + 1 else if even f then f else f + 1)"

text \<open>The binary exponent of a positive rational: the \<open>e\<close> with \<open>2^e \<le> q < 2^(e+1)\<close>,
  found from the bit lengths of numerator and denominator.\<close>

definition ilog2 :: "rat \<Rightarrow> int" where
  "ilog2 q =
     (let d = bitlen (fst (quotient_of q)) - bitlen (snd (quotient_of q))
      in if power_int 2 d \<le> q then d else d - 1)"

text \<open>
  The result of every arithmetic operation is the exact result rounded to the nearest
  number with a 53-bit significand, a tie going to the even significand; below the
  exponent -1022 the spacing stays that of the subnormal numbers. A rounded result of
  magnitude \<open>2^1024\<close> or more is an infinity.
\<close>

definition round_binary64 :: "rat \<Rightarrow> rat" where
  "round_binary64 q =
     (if q = 0 then 0
      else (let s = power_int 2 (max (ilog2 \<bar>q\<bar>) (- 1022) - 52)
            in of_int (round_half_even (q / s)) * s))"

definition fl_of :: "rat \<Rightarrow> fl" where
  "fl_of q =
     (let r = round_binary64 q
      in if r = 0 then Fin 0
         else if 1024 \<le> ilog2 \<bar>r\<bar> then (if 0 < r then PInf else NInf)
         else Fin r)"

text \<open>Comparison and arithmetic as IEEE 754 has them: every comparison with \<open>NaN\<close> is
  false, and a division by zero is an infinity or \<open>NaN\<close>, never an exception.\<close>

fun fl_less :: "fl \<Rightarrow> fl \<Rightarrow> bool" where
  "fl_less NaN y = False"
| "fl_less x NaN = False"
| "fl_less x NInf = False"
| "fl_less PInf y = False"
| "fl_less NInf y = True"
| "fl_less x PInf = True"
| "fl_less (Fin a) (Fin b) = (a < b)"

definition fl_greater :: "fl \<Rightarrow> fl \<Rightarrow> bool" where
  "fl_greater x y = fl_less y x"

fun fl_div :: "fl \<Rightarrow> fl \<Rightarrow> fl" where
  "fl_div NaN y = NaN"
| "fl_div x NaN = NaN"
| "fl_div (Fin a) (Fin b) =
     (if b = 0 then (if a = 0 then NaN else if 0 < a then PInf else NInf) else fl_of (a / b))"
| "fl_div (Fin a) y = Fin 0"
| "fl_div PInf (Fin b) = (if 0 \<le> b then PInf else NInf)"
| "fl_div NInf (Fin b) = (if 0 \<le> b then NInf else PInf)"
| "fl_div x y = NaN"

fun fl_mult :: "fl \<Rightarrow> fl \<Rightarrow> fl" where
  "fl_mult NaN y = NaN"
| "fl_mult x NaN = NaN"
| "fl_mult (Fin a) (Fin b) = fl_of (a * b)"
| "fl_mult (Fin a) PInf = (if a = 0 then NaN else if 0 < a then PInf else NInf)"
| "fl_mult (Fin a) NInf = (if a = 0 then NaN else if 0 < a then NInf else PInf)"
| "fl_mult PInf (Fin b) = (if b = 0 then NaN else if 0 < b then PInf else NInf)"
| "fl_mult NInf (Fin b) = (if b = 0 then NaN else if 0 < b then NInf else PInf)"
| "fl_mult PInf PInf = PInf"
| "fl_mult NInf NInf = PInf"
| "fl_mult x y = NInf"

text \<open>A decimal literal of the source (\<open>0.10\<close>, \<open>0.15\<close>, \<open>0.2\<close>) is the double nearest to it.\<close>

definition literal :: "rat \<Rightarrow> fl" where
  "literal q = fl_of q"

text \<open>
  \<open>round(x, 2)\<close> on a float: the exact value of \<open>x\<close> is rounded to the nearest multiple of
  1/100, a tie going to the even one, and the result is the double nearest to that decimal.
  An infinity or \<open>NaN\<close> is returned as it is.
\<close>

fun fl_round2 :: "fl \<Rightarrow> fl" where
  "fl_round2 (Fin x) = fl_of (of_int (round_half_even (x * 100)) / 100)"
| "fl_round2 x = x"

section \<open>Tables\<close>

text \<open>
  A DataFrame: the row labels, the column labels, and the cells row by row. A statement
  table of the provider has line items as rows and reporting periods as columns. The
  period type \<open>'p\<close> is left open.
\<close>

record ('r, 'c) frame =
  index :: "'r list"
  columns :: "'c list"
  cells :: "fl list list"

text \<open>The cell of a row under a column label; a label the row has no cell for reads as
  \<open>NaN\<close>, which is what reindexing fills in.\<close>

definition cell_at :: "'c list \<Rightarrow> fl list \<Rightarrow> 'c \<Rightarrow> fl" where
  "cell_at cols row c = (case map_of (zip cols row) c of None \<Rightarrow> NaN | Some v \<Rightarrow> v)"

definition reindex :: "'c list \<Rightarrow> ('r, 'c) frame \<Rightarrow> fl list list" where
  "reindex cols f = map (\<lambda>row. map (cell_at (columns f) row) cols) (cells f)"

text \<open>Order-preserving removal of duplicates (first occurrences stay): the order of the
  keys of a Python dictionary, of pandas' \<open>unique()\<close>, and of the union of column labels
  that \<open>pd.concat\<close> builds.\<close>

definition add_new :: "'a list \<Rightarrow> 'a \<Rightarrow> 'a list" where
  "add_new seen x = (if x \<in> set seen then seen else seen @ [x])"

definition unique :: "'a list \<Rightarrow> 'a list" where
  "unique xs = foldl add_new [] xs"

text \<open>
  \<open>pd.concat\<close> along the rows: no frame at all raises \<open>ValueError\<close>. When all frames have
  the same column labels the rows are stacked as they are. Otherwise the columns are the
  union of the labels and every frame is reindexed to them, which pandas refuses for a
  frame with a duplicated label. The union is kept in order of first appearance; for date
  labels pandas returns it sorted, so the order of the columns is that of pandas only when
  the frames agree on their labels or hold a single one.
\<close>

definition concat_frames :: "('r, 'c) frame list \<Rightarrow> error + ('r, 'c) frame" where
  "concat_frames fs =
     (case fs of
        [] \<Rightarrow> Inl ValueError
      | f # _ \<Rightarrow>
          if list_all (\<lambda>g. columns g = columns f) fs
          then Inr \<lparr>index = concat (map index fs), columns = columns f,
                    cells = concat (map cells fs)\<rparr>
          else if list_all (\<lambda>g. distinct (columns g)) fs
          then (let cols = unique (concat (map columns fs))
                in Inr \<lparr>index = concat (map index fs), columns = cols,
                         cells = concat (map (reindex cols) fs)\<rparr>)
          else Inl InvalidIndexError)"

text \<open>\<open>fs.T\<close>: the \<open>k\<close>-th new row holds the \<open>k\<close>-th cell of every old row.\<close>

definition first_cell :: "fl list \<Rightarrow> fl" where
  "first_cell row = (case row of [] \<Rightarrow> NaN | v # _ \<Rightarrow> v)"

fun transpose_cells :: "nat \<Rightarrow> fl list list \<Rightarrow> fl list list" where
  "transpose_cells 0 rows = []"
| "transpose_cells (Suc n) rows = map first_cell rows # transpose_cells n (map tl rows)"

definition T :: "('r, 'c) frame \<Rightarrow> ('c, 'r) frame" where
  "T f = \<lparr>index = columns f, columns = index f,
          cells = transpose_cells (length (columns f)) (cells f)\<rparr>"

section \<open>Statement assembler: \<open>fetch_fundamental_data\<close>\<close>

text \<open>
  \<open>yf.Ticker(symbol)\<close> with its three statement tables is the parameter \<open>Ticker\<close>; a
  failure of the provider is an \<open>Inl\<close>, and nothing handles it.
\<close>

record 'p statements =
  financials :: "(string, 'p) frame"
  balancesheet :: "(string, 'p) frame"
  cashflow :: "(string, 'p) frame"

text \<open>
  The three lines that add the column \<open>Ticker\<close>, append it to the index and swap the two
  index levels leave each row labelled by the pair of the symbol and the period. No line
  item is called \<open>Ticker\<close>.
\<close>

definition set_ticker_index :: "string \<Rightarrow> ('p, string) frame \<Rightarrow> (string \<times> 'p, string) frame" where
  "set_ticker_index symbol fs =
     \<lparr>index = map (\<lambda>period. (symbol, period)) (index fs), columns = columns fs,
      cells = cells fs\<rparr>"

fun per_ticker ::
  "(string \<Rightarrow> error + 'p statements) \<Rightarrow> string list \<Rightarrow> error + (string \<times> 'p, string) frame list" where
  "per_ticker Ticker [] = Inr []"
| "per_ticker Ticker (symbol # rest) =
     (case Ticker symbol of
        Inl e \<Rightarrow> Inl e
      | Inr ticker \<Rightarrow>
          (case concat_frames [financials ticker, balancesheet ticker, cashflow ticker] of
             Inl e \<Rightarrow> Inl e
           | Inr fs \<Rightarrow>
               (case per_ticker Ticker rest of
                  Inl e \<Rightarrow> Inl e
                | Inr data \<Rightarrow> Inr (set_ticker_index symbol (T fs) # data))))"

text \<open>
  \<open>reset_index\<close> turns the two index levels into the leading columns \<open>Ticker\<close> and
  \<open>level_1\<close> and numbers the rows. The model keeps the two columns as the list of pairs
  \<open>index\<close>: the column \<open>Ticker\<close> of the long-form table is \<open>map fst (index df)\<close>, the
  period column is \<open>map snd (index df)\<close>, and rows are addressed by position.
\<close>

definition fetch_fundamental_data ::
  "(string \<Rightarrow> error + 'p statements) \<Rightarrow> string list \<Rightarrow> error + (string \<times> 'p, string) frame" where
  "fetch_fundamental_data Ticker tickers =
     (case per_ticker Ticker tickers of
        Inl e \<Rightarrow> Inl e
      | Inr data \<Rightarrow> concat_frames data)"

section \<open>Growth screener: \<open>get_growth_filter\<close>\<close>

text \<open>Sequencing of steps that may raise: the first exception ends the evaluation.\<close>

definition bind_err :: "error + 'a \<Rightarrow> ('a \<Rightarrow> error + 'b) \<Rightarrow> error + 'b" where
  "bind_err m f = (case m of Inl e \<Rightarrow> Inl e | Inr x \<Rightarrow> f x)"

text \<open>
  \<open>df[name]\<close>: the column as a Series, or \<open>KeyError\<close> when no column has the label. When
  the label is repeated, \<open>df[name]\<close> is a table of several columns and the expression built
  on it fails with \<open>ValueError\<close>; the failure is placed at the read.
\<close>

definition column :: "('r, string) frame \<Rightarrow> string \<Rightarrow> error + fl list" where
  "column df name =
     (if name \<in> set (columns df)
      then if 1 < count_list (columns df) name
           then Inl ValueError
           else Inr (map (\<lambda>row. cell_at (columns df) row name) (cells df))
      else Inl (KeyError name))"

text \<open>\<open>Series.shift(1)\<close>: every value moves down one position, whatever the row is
  labelled; the first position is filled with \<open>NaN\<close> and the last value is dropped.\<close>

definition shift1 :: "fl list \<Rightarrow> fl list" where
  "shift1 xs = take (length xs) (NaN # xs)"

text \<open>The elementwise operations on Series of one frame, which are aligned by position.\<close>

definition series_gt :: "fl list \<Rightarrow> fl list \<Rightarrow> bool list" where
  "series_gt xs ys = map2 fl_greater xs ys"

definition series_lt :: "fl list \<Rightarrow> fl list \<Rightarrow> bool list" where
  "series_lt xs ys = map2 fl_less xs ys"

definition series_div :: "fl list \<Rightarrow> fl list \<Rightarrow> fl list" where
  "series_div xs ys = map2 fl_div xs ys"

definition gt_scalar :: "fl list \<Rightarrow> fl \<Rightarrow> bool list" where
  "gt_scalar xs c = map (\<lambda>x. fl_greater x c) xs"

definition lt_scalar :: "fl list \<Rightarrow> fl \<Rightarrow> bool list" where
  "lt_scalar xs c = map (\<lambda>x. fl_less x c) xs"

definition scalar_mult :: "fl \<Rightarrow> fl list \<Rightarrow> fl list" where
  "scalar_mult c xs = map (\<lambda>x. fl_mult c x) xs"

definition series_and :: "bool list \<Rightarrow> bool list \<Rightarrow> bool list" where
  "series_and xs ys = map2 (\<and>) xs ys"

text \<open>The two shapes of criterion that read two columns: \<open>df[a] > df[a].shift(1)\<close> and
  \<open>df[a] / df[b]\<close>. Columns are read from left to right.\<close>

definition growth :: "('r, string) frame \<Rightarrow> string \<Rightarrow> error + bool list" where
  "growth df a =
     bind_err (column df a) (\<lambda>cur.
     bind_err (column df a) (\<lambda>same.
     Inr (series_gt cur (shift1 same))))"

definition ratio :: "('r, string) frame \<Rightarrow> string \<Rightarrow> string \<Rightarrow> error + fl list" where
  "ratio df a b =
     bind_err (column df a) (\<lambda>num.
     bind_err (column df b) (\<lambda>den.
     Inr (series_div num den)))"

text \<open>The decimal literals of the screen: \<open>0.10\<close> and \<open>0.1\<close> are one double.\<close>

definition lit_0_10 :: fl where
  "lit_0_10 = literal (10 / 100)"

definition lit_0_15 :: fl where
  "lit_0_15 = literal (15 / 100)"

definition lit_0_2 :: fl where
  "lit_0_2 = literal (2 / 10)"

text \<open>
  The ten criteria in the order of the source. Each column is read where the expression
  first needs it, so a missing column raises \<open>KeyError\<close> for the first label that is not
  there. The criteria are joined by \<open>&\<close>, which associates to the left. The thresholds
  \<open>0.10\<close>, \<open>0.1\<close>, \<open>0.15\<close> and \<open>0.2\<close> are doubles; \<open>1\<close> and \<open>0\<close> are exact.
\<close>

definition get_growth_filter :: "('r, string) frame \<Rightarrow> error + bool list" where
  "get_growth_filter df =
     bind_err (growth df ''Total Revenue'') (\<lambda>c1.
     bind_err (ratio df ''Operating Income'' ''Total Revenue'') (\<lambda>r2.
     bind_err (ratio df ''EBITDA'' ''Total Revenue'') (\<lambda>r3.
     bind_err (growth df ''Diluted EPS'') (\<lambda>c4.
     bind_err (ratio df ''Net Debt'' ''Stockholders Equity'') (\<lambda>r5.
     bind_err (column df ''Interest Expense'') (\<lambda>interest.
     bind_err (column df ''Operating Income'') (\<lambda>operating.
     bind_err (column df ''Free Cash Flow'') (\<lambda>fcf.
     bind_err (ratio df ''Net Income'' ''Stockholders Equity'') (\<lambda>r8.
     bind_err (ratio df ''Selling General And Administration'' ''Total Revenue'') (\<lambda>r9.
     bind_err (ratio df ''Capital Expenditure'' ''Total Revenue'') (\<lambda>r10.
     Inr (foldl series_and c1
            [gt_scalar r2 lit_0_10,
             gt_scalar r3 lit_0_10,
             c4,
             lt_scalar r5 (Fin 1),
             series_lt interest (scalar_mult lit_0_10 operating),
             gt_scalar fcf (Fin 0),
             gt_scalar r8 lit_0_15,
             lt_scalar r9 lit_0_2,
             lt_scalar r10 lit_0_2]))))))))))))"

text \<open>Line 290 of the script: the rows the mask keeps, their \<open>Ticker\<close> column, \<open>unique()\<close>.\<close>

definition selected_tickers :: "(string \<times> 'p, string) frame \<Rightarrow> error + string list" where
  "selected_tickers final_df =
     bind_err (get_growth_filter final_df) (\<lambda>growth_filter.
     Inr (unique (map fst (filter snd (zip (map fst (index final_df)) growth_filter)))))"

section \<open>Weight calculator: \<open>calculate_market_cap_weights\<close>\<close>

text \<open>
  The provider call \<open>yf.Ticker(ticker).info.get('marketCap')\<close> is the parameter
  \<open>info :: string \<Rightarrow> int option\<close>: \<open>None\<close> is Python's \<open>None\<close> (key absent).
  The dictionary \<open>market_caps\<close> is an association list in insertion order; assigning to a key
  that is already present keeps its position and replaces its value, which is what
  \<open>AList.update\<close> does. The test \<open>if market_cap:\<close> is Python truthiness: \<open>None\<close> and \<open>0\<close>
  are both false. The \<open>print\<close> of the else branch is not modelled.
\<close>

fun collect_caps ::
  "(string \<Rightarrow> int option) \<Rightarrow> string list \<Rightarrow> (string \<times> int) list \<Rightarrow> (string \<times> int) list" where
  "collect_caps info [] market_caps = market_caps"
| "collect_caps info (ticker # rest) market_caps =
     (case info ticker of
        None \<Rightarrow> collect_caps info rest market_caps
      | Some market_cap \<Rightarrow>
          if market_cap \<noteq> 0
          then collect_caps info rest (AList.update ticker market_cap market_caps)
          else collect_caps info rest market_caps)"

text \<open>
  True division \<open>cap / total_market_cap\<close> of two Python ints: the quotient correctly
  rounded to a double; a zero divisor raises, and so does a quotient too large for a float.
\<close>

definition truediv :: "int \<Rightarrow> int \<Rightarrow> error + fl" where
  "truediv a b =
     (if b = 0 then Inl ZeroDivisionError
      else (case fl_of (of_int a / of_int b) of
              Fin r \<Rightarrow> Inr (Fin r)
            | _ \<Rightarrow> Inl OverflowError))"

text \<open>The list comprehension: the first element that raises ends it. The quotient is
  multiplied by 100 and the product rounded to two decimals, each in double precision.\<close>

fun ticker_weights :: "int \<Rightarrow> (string \<times> int) list \<Rightarrow> error + (string \<times> fl) list" where
  "ticker_weights total_market_cap [] = Inr []"
| "ticker_weights total_market_cap ((ticker, cap) # items) =
     (case truediv cap total_market_cap of
        Inl e \<Rightarrow> Inl e
      | Inr q \<Rightarrow>
          (case ticker_weights total_market_cap items of
             Inl e \<Rightarrow> Inl e
           | Inr ws \<Rightarrow> Inr ((ticker, fl_round2 (fl_mult q (Fin 100))) # ws)))"

definition calculate_market_cap_weights ::
  "(string \<Rightarrow> int option) \<Rightarrow> string list \<Rightarrow> error + (string \<times> fl) list" where
  "calculate_market_cap_weights info tickers =
     (let market_caps = collect_caps info tickers [];
          total_market_cap = sum_list (map snd market_caps)
      in ticker_weights total_market_cap market_caps)"

section \<open>Vocabulary of the properties\<close>

text \<open>A market cap is available when it is present and not zero (the truthiness test);
  \<open>cap_of\<close> reads it, and the included tickers are the available ones of the input, each
  once, in order of first occurrence.\<close>

definition available :: "(string \<Rightarrow> int option) \<Rightarrow> string \<Rightarrow> bool" where
  "available info t = (case info t of None \<Rightarrow> False | Some c \<Rightarrow> c \<noteq> 0)"

definition cap_of :: "(string \<Rightarrow> int option) \<Rightarrow> string \<Rightarrow> int" where
  "cap_of info t = (case info t of None \<Rightarrow> 0 | Some c \<Rightarrow> c)"

definition included :: "(string \<Rightarrow> int option) \<Rightarrow> string list \<Rightarrow> string list" where
  "included info tickers = unique (filter (available info) tickers)"

text \<open>The value of a line item in the row at a position of the long-form table, and the
  value the shifted Series has there: the value of the row just above, whatever its ticker.\<close>

definition value_at :: "('r, string) frame \<Rightarrow> string \<Rightarrow> nat \<Rightarrow> fl" where
  "value_at df name i = cell_at (columns df) (cells df ! i) name"

definition shifted_at :: "('r, string) frame \<Rightarrow> string \<Rightarrow> nat \<Rightarrow> fl" where
  "shifted_at df name i = (if i = 0 then NaN else value_at df name (i - 1))"

definition ratio_at :: "('r, string) frame \<Rightarrow> string \<Rightarrow> string \<Rightarrow> nat \<Rightarrow> fl" where
  "ratio_at df a b i = fl_div (value_at df a i) (value_at df b i)"

text \<open>The entry of the mask of \<open>get_growth_filter\<close> at one row: the ten comparisons as the
  code evaluates them, with the shifted values and in double precision.\<close>

definition screen_at :: "('r, string) frame \<Rightarrow> nat \<Rightarrow> bool" where
  "screen_at df i =
     (fl_greater (value_at df ''Total Revenue'' i) (shifted_at df ''Total Revenue'' i)
      \<and> fl_greater (ratio_at df ''Operating Income'' ''Total Revenue'' i) lit_0_10
      \<and> fl_greater (ratio_at df ''EBITDA'' ''Total Revenue'' i) lit_0_10
      \<and> fl_greater (value_at df ''Diluted EPS'' i) (shifted_at df ''Diluted EPS'' i)
      \<and> fl_less (ratio_at df ''Net Debt'' ''Stockholders Equity'' i) (Fin 1)
      \<and> fl_less (value_at df ''Interest Expense'' i)
           (fl_mult lit_0_10 (value_at df ''Operating Income'' i))
      \<and> fl_greater (value_at df ''Free Cash Flow'' i) (Fin 0)
      \<and> fl_greater (ratio_at df ''Net Income'' ''Stockholders Equity'' i) lit_0_15
      \<and> fl_less (ratio_at df ''Selling General And Administration'' ''Total Revenue'' i)
           lit_0_2
      \<and> fl_less (ratio_at df ''Capital Expenditure'' ''Total Revenue'' i) lit_0_2)"

text \<open>The columns the screen reads, in the order in which it first reads them.\<close>

definition screen_columns :: "string list" where
  "screen_columns =
     [''Total Revenue'', ''Operating Income'', ''EBITDA'', ''Diluted EPS'', ''Net Debt'',
      ''Stockholders Equity'', ''Interest Expense'', ''Free Cash Flow'', ''Net Income'',
      ''Selling General And Administration'', ''Capital Expenditure'']"

text \<open>The six criteria that divide one column by another: numerator and denominator.\<close>

definition ratio_criteria :: "(string \<times> string) list" where
  "ratio_criteria =
     [(''Operating Income'', ''Total Revenue''),
      (''EBITDA'', ''Total Revenue''),
      (''Net Debt'', ''Stockholders Equity''),
      (''Net Income'', ''Stockholders Equity''),
      (''Selling General And Administration'', ''Total Revenue''),
      (''Capital Expenditure'', ''Total Revenue'')]"








text \<open>Rounding of an exact number to two decimal places, a tie going to the even digit;
  and the sum of the market caps over the set of tickers with an available market cap.\<close>

definition round2 :: "rat \<Rightarrow> rat" where
  "round2 q = of_int (round_half_even (q * 100)) / 100"

definition total_cap :: "(string \<Rightarrow> int option) \<Rightarrow> string list \<Rightarrow> int" where
  "total_cap info tickers = (\<Sum>t \<in> {t \<in> set tickers. available info t}. cap_of info t)"

text \<open>The weight of a ticker as the comprehension computes it: the quotient, its product
  with 100 and the rounding to two decimals, each a double.\<close>

definition double_weight :: "int \<Rightarrow> int \<Rightarrow> fl" where
  "double_weight c tot = fl_round2 (fl_mult (fl_of (of_int c / of_int tot)) (Fin 100))"

section \<open>Example inputs\<close>

text \<open>An iteration order of sets that follows a given list.\<close>

definition listing :: "string list \<Rightarrow> string set \<Rightarrow> string list" where
  "listing xs S = filter (\<lambda>x. x \<in> S) xs"

text \<open>Pages as the three sources expect them, and a network on which the S&P 500 page
  answers with status 503 while the two other pages are served.\<close>

definition sp500_page :: response where
  "sp500_page =
     \<lparr>status_code = 200,
      tables = [\<lparr>table_id = Some ''constituents'', classes = [''wikitable'', ''sortable''],
                 trs = [\<lparr>row_text = ''Symbol Security'', tds = []\<rparr>,
                        \<lparr>row_text = ''MMM 3M'', tds = [[''MMM'', [CHR 0x0A]], [''3M'']]\<rparr>,
                        \<lparr>row_text = ''BRK.B Berkshire Hathaway'',
                         tds = [[''BRK.B'', [CHR 0x0A]], [''Berkshire Hathaway'']]\<rparr>]\<rparr>]\<rparr>"

definition dow_jones_page :: response where
  "dow_jones_page =
     \<lparr>status_code = 200,
      tables = [\<lparr>table_id = None, classes = [''wikitable'', ''sortable''],
                 trs = [\<lparr>row_text = ''Company Exchange Symbol'', tds = []\<rparr>,
                        \<lparr>row_text = ''3M NYSE MMM'', tds = [[''NYSE''], [''MMM'']]\<rparr>]\<rparr>]\<rparr>"

definition nasdaq_100_page :: response where
  "nasdaq_100_page =
     \<lparr>status_code = 200,
      tables = [\<lparr>table_id = None, classes = [''wikitable''],
                 trs = [\<lparr>row_text = ''Year Change'', tds = []\<rparr>]\<rparr>,
                \<lparr>table_id = Some ''constituents'', classes = [''wikitable'', ''sortable''],
                 trs = [\<lparr>row_text = ''Company Symbol'', tds = []\<rparr>,
                        \<lparr>row_text = ''Apple Inc. AAPL'', tds = [[''Apple Inc.''], [''AAPL'']]\<rparr>]\<rparr>]\<rparr>"

definition sp500_unavailable :: http where
  "sp500_unavailable url =
     (if url = sp500_url then Inr \<lparr>status_code = 503, tables = []\<rparr>
      else if url = dow_jones_url then Inr dow_jones_page
      else if url = nasdaq_100_url then Inr nasdaq_100_page
      else Inl ConnectionError)"

definition dow_jones_unavailable :: http where
  "dow_jones_unavailable url =
     (if url = sp500_url then Inr sp500_page
      else if url = dow_jones_url then Inl ConnectionError
      else if url = nasdaq_100_url then Inr nasdaq_100_page
      else Inl ConnectionError)"

text \<open>
  Long-form tables with the eleven columns of the screen, periods numbered within a ticker.
  A row lists Total Revenue, Operating Income, EBITDA, Diluted EPS, Net Debt, Stockholders
  Equity, Interest Expense, Free Cash Flow, Net Income, SG&A and Capital Expenditure.

  \<open>two_ticker_table r\<close>: ticker A with periods 1 (revenue 100) and 2 (revenue \<open>r\<close>),
  then ticker B with the single period 1 (revenue 500).
\<close>

definition two_ticker_table :: "rat \<Rightarrow> (string \<times> nat, string) frame" where
  "two_ticker_table r =
     \<lparr>index = [(''A'', 1), (''A'', 2), (''B'', 1)],
      columns = screen_columns,
      cells = [map Fin [100, 20, 30, 1, 10, 100, 1, 5, 20, 10, 5],
               map Fin [r, 30, 45, 2, 10, 100, 1, 5, 20, 15, 5],
               map Fin [500, 100, 150, 3, 10, 100, 1, 5, 20, 50, 5]]\<rparr>"

text \<open>\<open>single_period_table\<close>: tickers A and B with one period each.\<close>

definition single_period_table :: "(string \<times> nat, string) frame" where
  "single_period_table =
     \<lparr>index = [(''A'', 1), (''B'', 1)],
      columns = screen_columns,
      cells = [map Fin [100, 20, 30, 1, 10, 100, 1, 5, 20, 10, 5],
               map Fin [500, 100, 150, 3, 10, 100, 1, 5, 20, 50, 5]]\<rparr>"

text \<open>\<open>zero_equity_table\<close>: one ticker with two periods; in the second, Stockholders Equity
  is 0, Net Debt is negative and Net Income is positive.\<close>

definition zero_equity_table :: "(string \<times> nat, string) frame" where
  "zero_equity_table =
     \<lparr>index = [(''A'', 1), (''A'', 2)],
      columns = screen_columns,
      cells = [map Fin [100, 20, 30, 1, 10, 100, 1, 5, 20, 10, 5],
               map Fin [150, 30, 45, 2, - 10, 0, 1, 5, 20, 15, 5]]\<rparr>"

text \<open>\<open>null_income_table\<close>: as \<open>two_ticker_table 150\<close>, but the Operating Income of the
  second row is null.\<close>

definition null_income_table :: "(string \<times> nat, string) frame" where
  "null_income_table =
     \<lparr>index = [(''A'', 1), (''A'', 2), (''B'', 1)],
      columns = screen_columns,
      cells = [map Fin [100, 20, 30, 1, 10, 100, 1, 5, 20, 10, 5],
               [Fin 150, NaN, Fin 45, Fin 2, Fin 10, Fin 100, Fin 1, Fin 5, Fin 20, Fin 15, Fin 5],
               map Fin [500, 100, 150, 3, 10, 100, 1, 5, 20, 50, 5]]\<rparr>"

text \<open>A provider that knows the single ticker X: one reporting period, Total Revenue 100
  and Operating Income 20 in the income statement, and two empty tables.\<close>

definition one_period_provider :: "string \<Rightarrow> error + string statements" where
  "one_period_provider symbol =
     (if symbol = ''X''
      then Inr \<lparr>financials =
                 \<lparr>index = [''Total Revenue'', ''Operating Income''],
                  columns = [''2023-12-31''],
                  cells = [[Fin 100], [Fin 20]]\<rparr>,
               balancesheet = \<lparr>index = [], columns = [], cells = []\<rparr>,
               cashflow = \<lparr>index = [], columns = [], cells = []\<rparr>\<rparr>
      else Inl ConnectionError)"

text \<open>A provider for the tickers A (periods 1 and 2) and B (period 1), the line items
  spread over the three statements.\<close>

definition two_ticker_provider :: "string \<Rightarrow> error + nat statements" where
  "two_ticker_provider symbol =
     (if symbol = ''A''
      then Inr \<lparr>financials =
                 \<lparr>index = [''Total Revenue'', ''Operating Income'', ''EBITDA'', ''Diluted EPS'',
                           ''Interest Expense'', ''Net Income'',
                           ''Selling General And Administration''],
                  columns = [1, 2],
                  cells = map (map Fin)
                            [[100, 150], [20, 30], [30, 45], [1, 2], [1, 1], [20, 20], [10, 15]]\<rparr>,
               balancesheet =
                 \<lparr>index = [''Net Debt'', ''Stockholders Equity''],
                  columns = [1, 2],
                  cells = map (map Fin) [[10, 10], [100, 100]]\<rparr>,
               cashflow =
                 \<lparr>index = [''Free Cash Flow'', ''Capital Expenditure''],
                  columns = [1, 2],
                  cells = map (map Fin) [[5, 5], [5, 5]]\<rparr>\<rparr>
      else if symbol = ''B''
      then Inr \<lparr>financials =
                 \<lparr>index = [''Total Revenue'', ''Operating Income'', ''EBITDA'', ''Diluted EPS'',
                           ''Interest Expense'', ''Net Income'',
                           ''Selling General And Administration''],
                  columns = [1],
                  cells = map (map Fin) [[500], [100], [150], [3], [1], [20], [50]]\<rparr>,
               balancesheet =
                 \<lparr>index = [''Net Debt'', ''Stockholders Equity''],
                  columns = [1],
                  cells = map (map Fin) [[10], [100]]\<rparr>,
               cashflow =
                 \<lparr>index = [''Free Cash Flow'', ''Capital Expenditure''],
                  columns = [1],
                  cells = map (map Fin) [[5], [5]]\<rparr>\<rparr>
      else Inl ConnectionError)"

section \<open>Properties of double-precision rounding\<close>

text \<open>The values of the three decimal literals, for evaluation.\<close>

lemma lit_0_10_value [code]: "lit_0_10 = Fin (3602879701896397 / 36028797018963968)"
  unfolding lit_0_10_def literal_def by code_simp

lemma lit_0_15_value [code]: "lit_0_15 = Fin (5404319552844595 / 36028797018963968)"
  unfolding lit_0_15_def literal_def by code_simp

lemma lit_0_2_value [code]: "lit_0_2 = Fin (3602879701896397 / 18014398509481984)"
  unfolding lit_0_2_def literal_def by code_simp

lemma round_half_even_error: "\<bar>of_int (round_half_even x) - x\<bar> \<le> 1 / 2"
proof -
  have "of_int \<lfloor>x\<rfloor> \<le> x" "x < of_int \<lfloor>x\<rfloor> + 1"
    by linarith+
  then show ?thesis
    by (auto simp: round_half_even_def Let_def)
qed

lemma ilog2_lower:
  assumes "0 < q"
  shows "power_int 2 (ilog2 q) \<le> q"
proof -
  obtain a b where ab: "quotient_of q = (a, b)"
    by (cases "quotient_of q")
  then have b: "0 < b" and q: "q = of_int a / of_int b"
    by (simp_all add: quotient_of_denom_pos quotient_of_div)
  have a: "0 < a"
    using assms b q by (simp add: zero_less_divide_iff)
  have la: "1 \<le> bitlen a" and lb: "1 \<le> bitlen b"
    using a b by (simp_all add: bitlen_alt_def)
  have low: "(2::rat) ^ nat (bitlen a - 1) \<le> of_int a"
    using bitlen_bounds [OF a] by (metis of_int_le_iff of_int_numeral of_int_power)
  have up: "of_int b \<le> (2::rat) ^ nat (bitlen b)"
    using bitlen_bounds [OF b] by (metis less_imp_le of_int_le_iff of_int_numeral of_int_power)
  have "power_int (2::rat) (bitlen a - bitlen b - 1)
          = power_int 2 (bitlen a - 1) / power_int 2 (bitlen b)"
    using power_int_diff [of "2::rat" "bitlen a - 1" "bitlen b"] by (simp add: algebra_simps)
  also have "\<dots> = 2 ^ nat (bitlen a - 1) / 2 ^ nat (bitlen b)"
    using la lb by (simp add: power_int_nonneg_exp)
  also have "\<dots> \<le> of_int a / of_int b"
    using low up a b by (intro frac_le) simp_all
  finally have "power_int 2 (bitlen a - bitlen b - 1) \<le> q"
    by (simp add: q)
  then show ?thesis
    by (simp add: ilog2_def ab Let_def)
qed


lemma quantum_bound:
  assumes "q \<noteq> 0"
  shows "power_int 2 (max (ilog2 \<bar>q\<bar>) (- 1022) - 52) \<le> (\<bar>q\<bar> + 1) / 2 ^ 52"
proof (cases "- 1022 \<le> ilog2 \<bar>q\<bar>")
  case True
  have "power_int (2::rat) (ilog2 \<bar>q\<bar> - 52) = power_int 2 (ilog2 \<bar>q\<bar>) / power_int 2 52"
    by (rule power_int_diff) simp
  also have "\<dots> \<le> \<bar>q\<bar> / 2 ^ 52"
    using ilog2_lower [of "\<bar>q\<bar>"] assms by (simp add: divide_right_mono)
  also have "\<dots> \<le> (\<bar>q\<bar> + 1) / 2 ^ 52"
    by (simp add: divide_right_mono)
  finally show ?thesis
    using True by (simp only: max_absorb1)
next
  case False
  then have m: "max (ilog2 \<bar>q\<bar>) (- 1022) = - 1022"
    by (simp only: max_def) simp
  have "power_int (2::rat) (- 1022 - 52) \<le> power_int 2 (- 52)"
    by (rule power_int_increasing) simp_all
  also have "\<dots> = 1 / 2 ^ 52"
    by (simp add: power_int_minus_divide)
  also have "\<dots> \<le> (\<bar>q\<bar> + 1) / 2 ^ 52"
    by (simp add: divide_right_mono)
  finally show ?thesis
    by (simp only: m)
qed

lemma round_binary64_error: "\<bar>round_binary64 q - q\<bar> \<le> (\<bar>q\<bar> + 1) / 2 ^ 53"
proof (cases "q = 0")
  case True
  then show ?thesis by (simp add: round_binary64_def)
next
  case False
  define s :: rat where "s = power_int 2 (max (ilog2 \<bar>q\<bar>) (- 1022) - 52)"
  have pos: "0 < s"
    by (simp add: s_def)
  have sb: "s \<le> (\<bar>q\<bar> + 1) / 2 ^ 52"
    unfolding s_def using False by (rule quantum_bound)
  have r: "round_binary64 q = of_int (round_half_even (q / s)) * s"
    using False by (simp only: round_binary64_def s_def Let_def if_False)
  have "of_int (round_half_even (q / s)) * s - q = (of_int (round_half_even (q / s)) - q / s) * s"
    using pos by (simp add: algebra_simps)
  then have "\<bar>round_binary64 q - q\<bar> = \<bar>of_int (round_half_even (q / s)) - q / s\<bar> * s"
    using pos by (simp add: r abs_mult)
  also have "\<dots> \<le> 1 / 2 * s"
    using round_half_even_error [of "q / s"] pos by (intro mult_right_mono) simp_all
  also have "\<dots> \<le> 1 / 2 * ((\<bar>q\<bar> + 1) / 2 ^ 52)"
    using sb by simp
  also have "\<dots> = (\<bar>q\<bar> + 1) / 2 ^ 53"
    by simp
  finally show ?thesis .
qed

lemma fl_of_finite:
  assumes "\<bar>q\<bar> \<le> 1000"
  shows "fl_of q = Fin (round_binary64 q)"
proof -
  define r where "r = round_binary64 q"
  have "\<bar>r - q\<bar> \<le> (\<bar>q\<bar> + 1) / 2 ^ 53"
    unfolding r_def by (rule round_binary64_error)
  also have "\<dots> \<le> 1"
    using assms by (simp add: divide_le_eq)
  finally have rb: "\<bar>r\<bar> \<le> 1001"
    using assms by linarith
  have "\<not> 1024 \<le> ilog2 \<bar>r\<bar>" if "r \<noteq> 0"
  proof
    assume big: "1024 \<le> ilog2 \<bar>r\<bar>"
    have "(2::rat) ^ 10 = power_int 2 10"
      by simp
    also have "\<dots> \<le> power_int 2 (ilog2 \<bar>r\<bar>)"
      using big by (intro power_int_increasing) simp_all
    also have "\<dots> \<le> \<bar>r\<bar>"
      using that by (intro ilog2_lower) simp
    finally show False
      using rb by simp
  qed
  then show ?thesis
    by (auto simp: fl_of_def Let_def r_def [symmetric])
qed


lemma round_binary64_error_small:
  assumes "\<bar>y\<bar> \<le> 1000"
  shows "\<bar>round_binary64 y - y\<bar> \<le> 1 / 1000000000000"
proof -
  have "\<bar>round_binary64 y - y\<bar> \<le> (\<bar>y\<bar> + 1) / 2 ^ 53"
    by (rule round_binary64_error)
  also have "\<dots> \<le> (1000 + 1) / 2 ^ 53"
    using assms by (intro divide_right_mono) simp_all
  also have "\<dots> \<le> 1 / 1000000000000"
    by simp
  finally show ?thesis .
qed

lemma weight_bound:
  assumes "0 \<le> c" and "c \<le> tot" and "0 < tot"
  shows "truediv c tot = Inr (fl_of (of_int c / of_int tot))
         \<and> (\<exists>w k. double_weight c tot = Fin w
                \<and> w = round_binary64 (of_int k / 100)
                \<and> \<bar>w - 100 * of_int c / of_int tot\<bar> \<le> 51 / 10000)"
proof -
  define q :: rat where "q = of_int c / of_int tot"
  define x1 where "x1 = round_binary64 q"
  define x2 where "x2 = round_binary64 (x1 * 100)"
  define k where "k = round_half_even (x2 * 100)"
  define d :: rat where "d = of_int k / 100"
  define w where "w = round_binary64 d"
  have q0: "0 \<le> q" and q1: "q \<le> 1"
    using assms by (simp_all add: q_def)
  then have qa: "\<bar>q\<bar> \<le> 1000"
    by simp
  have e1: "\<bar>x1 - q\<bar> \<le> 1 / 1000000000000"
    unfolding x1_def using qa by (rule round_binary64_error_small)
  have b1: "\<bar>x1 * 100\<bar> \<le> 1000"
    using e1 q0 q1 by linarith
  have e2: "\<bar>x2 - x1 * 100\<bar> \<le> 1 / 1000000000000"
    unfolding x2_def using b1 by (rule round_binary64_error_small)
  have "\<bar>of_int k - x2 * 100\<bar> \<le> 1 / 2"
    unfolding k_def by (rule round_half_even_error)
  then have e3: "\<bar>d - x2\<bar> \<le> 1 / 200"
    unfolding d_def by linarith
  have b3: "\<bar>d\<bar> \<le> 1000"
    using e1 e2 e3 q0 q1 by linarith
  have e4: "\<bar>w - d\<bar> \<le> 1 / 1000000000000"
    unfolding w_def using b3 by (rule round_binary64_error_small)
  have f: "fl_of q = Fin x1"
    using qa fl_of_finite [of q] by (simp add: x1_def)
  have t: "truediv c tot = Inr (fl_of q)"
    using assms(3) f by (simp add: truediv_def q_def)
  have m: "fl_mult (Fin x1) (Fin 100) = Fin x2"
    using b1 fl_of_finite [of "x1 * 100"] by (simp add: x2_def)
  have r: "fl_round2 (Fin x2) = Fin w"
    using b3 fl_of_finite [of d] by (simp add: w_def d_def k_def)
  have dw: "double_weight c tot = Fin w"
    using f m r by (simp add: double_weight_def q_def)
  have "\<bar>w - 100 * q\<bar> \<le> 51 / 10000"
    using e1 e2 e3 e4 by linarith
  then show ?thesis
    using t dw by (auto simp: q_def w_def d_def)
qed

section \<open>Properties of the weight calculator\<close>

lemma set_foldl_add_new: "set (foldl add_new acc xs) = set acc \<union> set xs"
  by (induction xs arbitrary: acc) (auto simp: add_new_def)

lemma distinct_foldl_add_new: "distinct acc \<Longrightarrow> distinct (foldl add_new acc xs)"
  by (induction xs arbitrary: acc) (auto simp: add_new_def)

lemma set_unique: "set (unique xs) = set xs"
  by (simp add: unique_def set_foldl_add_new)

lemma distinct_unique: "distinct (unique xs)"
  by (simp add: unique_def distinct_foldl_add_new)

lemma set_included: "set (included info tickers) = {t \<in> set tickers. available info t}"
  by (auto simp: included_def set_unique)

lemma update_entries:
  "AList.update t (cap_of info t) (map (\<lambda>k. (k, cap_of info k)) ks)
     = map (\<lambda>k. (k, cap_of info k)) (add_new ks t)"
  by (induction ks) (auto simp: add_new_def)

lemma collect_caps_entries:
  "collect_caps info tickers (map (\<lambda>k. (k, cap_of info k)) ks)
     = map (\<lambda>k. (k, cap_of info k)) (foldl add_new ks (filter (available info) tickers))"
proof (induction tickers arbitrary: ks)
  case Nil
  show ?case by simp
next
  case (Cons t ts)
  show ?case
  proof (cases "available info t")
    case True
    then obtain c where c: "info t = Some c" "c \<noteq> 0"
      by (auto simp: available_def split: option.splits)
    then have cap: "cap_of info t = c"
      by (simp add: cap_of_def)
    have "collect_caps info (t # ts) (map (\<lambda>k. (k, cap_of info k)) ks)
            = collect_caps info ts (map (\<lambda>k. (k, cap_of info k)) (add_new ks t))"
      using c update_entries [of t info ks] by (simp add: cap)
    then show ?thesis
      using True Cons.IH [of "add_new ks t"] by simp
  next
    case False
    then have "collect_caps info (t # ts) (map (\<lambda>k. (k, cap_of info k)) ks)
                 = collect_caps info ts (map (\<lambda>k. (k, cap_of info k)) ks)"
      by (auto simp: available_def split: option.splits)
    then show ?thesis
      using False Cons.IH [of ks] by simp
  qed
qed

lemma market_caps_included:
  "collect_caps info tickers [] = map (\<lambda>k. (k, cap_of info k)) (included info tickers)"
  using collect_caps_entries [of info tickers "[]"] by (simp add: included_def unique_def)

lemma total_included:
  "sum_list (map snd (collect_caps info tickers []))
     = (\<Sum>t \<in> {t \<in> set tickers. available info t}. cap_of info t)"
proof -
  have "sum_list (map snd (collect_caps info tickers []))
          = sum_list (map (cap_of info) (included info tickers))"
    by (simp add: market_caps_included comp_def)
  also have "\<dots> = (\<Sum>t \<in> set (included info tickers). cap_of info t)"
    by (simp add: sum_list_distinct_conv_sum_set included_def distinct_unique)
  finally show ?thesis
    by (simp add: set_included)
qed

lemma ticker_weights_keys:
  "ticker_weights tot xs = Inr ws \<Longrightarrow> map fst ws = map fst xs"
  by (induction tot xs arbitrary: ws rule: ticker_weights.induct)
     (auto split: sum.splits)

lemma ticker_weights_values:
  assumes "0 < tot" and "list_all (\<lambda>k. 0 \<le> f k \<and> f k \<le> tot) ks"
  shows "ticker_weights tot (map (\<lambda>k. (k, f k)) ks)
           = Inr (map (\<lambda>k. (k, double_weight (f k) tot)) ks)"
  using assms(2)
proof (induction ks)
  case Nil
  show ?case by simp
next
  case (Cons k ks)
  then have "truediv (f k) tot = Inr (fl_of (of_int (f k) / of_int tot))"
    using assms(1) weight_bound [of "f k" tot] by simp
  then show ?case
    using Cons by (simp add: double_weight_def)
qed

lemma included_caps_bounds:
  assumes "list_all (\<lambda>t. 0 \<le> cap_of info t) tickers" and "t \<in> set (included info tickers)"
  shows "0 < cap_of info t \<and> cap_of info t \<le> total_cap info tickers"
proof -
  let ?A = "{t \<in> set tickers. available info t}"
  have t: "t \<in> ?A"
    using assms(2) by (simp add: set_included)
  have nn: "0 \<le> cap_of info x" if "x \<in> ?A" for x
    using assms(1) that by (simp add: list_all_iff)
  have "cap_of info t \<noteq> 0"
    using t by (auto simp: available_def cap_of_def split: option.splits)
  then have "0 < cap_of info t"
    using nn [OF t] by simp
  moreover have "cap_of info t \<le> (\<Sum>x \<in> ?A. cap_of info x)"
    using t nn by (intro member_le_sum) simp_all
  ultimately show ?thesis
    by (simp add: total_cap_def)
qed

text \<open>
  Claim C7, as amended. When no market cap is negative, the weight calculator returns one
  pair for each ticker whose market cap is available, in order of first occurrence, and
  none for the others; the total is the sum of the market caps over those tickers only.
  The weight of a ticker is what the quotient, its product with 100 and the rounding to
  two decimals give in double precision: it is the double nearest to a number with two
  decimals and lies within 0.0051 of \<open>100 * cap / total\<close>. Market caps A: 100 and B: 300
  give the weights 25 and 75.
\<close>

theorem weights_are_normalised_caps:
  assumes "list_all (\<lambda>t. 0 \<le> cap_of info t) tickers"
  shows "calculate_market_cap_weights info tickers
           = Inr (map (\<lambda>t. (t, double_weight (cap_of info t) (total_cap info tickers)))
                    (included info tickers))
         \<and> list_all
              (\<lambda>t. \<exists>w k. double_weight (cap_of info t) (total_cap info tickers) = Fin w
                       \<and> w = round_binary64 (of_int k / 100)
                       \<and> \<bar>w - 100 * of_int (cap_of info t) / of_int (total_cap info tickers)\<bar>
                           \<le> 51 / 10000)
              (included info tickers)"
proof -
  let ?tot = "total_cap info tickers"
  have tot: "sum_list (map snd (collect_caps info tickers [])) = ?tot"
    by (simp add: total_included total_cap_def)
  have b: "0 < cap_of info t \<and> cap_of info t \<le> ?tot" if "t \<in> set (included info tickers)" for t
    using assms that by (rule included_caps_bounds)
  have first: "ticker_weights ?tot (map (\<lambda>k. (k, cap_of info k)) (included info tickers))
                 = Inr (map (\<lambda>k. (k, double_weight (cap_of info k) ?tot)) (included info tickers))"
  proof (cases "included info tickers")
    case Nil
    then show ?thesis by simp
  next
    case (Cons t ts)
    then have "0 < ?tot"
      using b [of t] by simp
    moreover have "list_all (\<lambda>k. 0 \<le> cap_of info k \<and> cap_of info k \<le> ?tot) (included info tickers)"
      using b by (simp add: list_all_iff less_imp_le)
    ultimately show ?thesis
      by (rule ticker_weights_values)
  qed
  have second: "\<exists>w k. double_weight (cap_of info t) ?tot = Fin w
                  \<and> w = round_binary64 (of_int k / 100)
                  \<and> \<bar>w - 100 * of_int (cap_of info t) / of_int ?tot\<bar> \<le> 51 / 10000"
    if "t \<in> set (included info tickers)" for t
  proof -
    have "0 \<le> cap_of info t" "cap_of info t \<le> ?tot" "0 < ?tot"
      using b [OF that] by simp_all
    then show ?thesis
      using weight_bound [of "cap_of info t" ?tot] by simp
  qed
  have "calculate_market_cap_weights info tickers
          = ticker_weights ?tot (collect_caps info tickers [])"
    by (simp add: calculate_market_cap_weights_def Let_def tot)
  also have "\<dots> = ticker_weights ?tot (map (\<lambda>k. (k, cap_of info k)) (included info tickers))"
    by (simp only: market_caps_included)
  finally have "calculate_market_cap_weights info tickers
                  = Inr (map (\<lambda>k. (k, double_weight (cap_of info k) ?tot)) (included info tickers))"
    using first by simp
  then show ?thesis
    using second by (simp add: list_all_iff)
qed

theorem weights_are_normalised_caps_witness:
  "list_all (\<lambda>t. 0 \<le> cap_of [''A'' \<mapsto> 100, ''B'' \<mapsto> 300] t) [''A'', ''B'', ''C'']
   \<and> included [''A'' \<mapsto> 100, ''B'' \<mapsto> 300] [''A'', ''B'', ''C''] = [''A'', ''B'']
   \<and> total_cap [''A'' \<mapsto> 100, ''B'' \<mapsto> 300] [''A'', ''B'', ''C''] = 400
   \<and> calculate_market_cap_weights [''A'' \<mapsto> 100, ''B'' \<mapsto> 300] [''A'', ''B'', ''C'']
     = Inr [(''A'', double_weight 100 400), (''B'', double_weight 300 400)]
   \<and> double_weight 100 400 = Fin 25
   \<and> double_weight 300 400 = Fin 75
   \<and> calculate_market_cap_weights [''A'' \<mapsto> 1, ''B'' \<mapsto> 2] [''A'', ''B'']
     = Inr [(''A'', fl_of (3333 / 100)), (''B'', fl_of (6667 / 100))]"
proof -
  have h: "list_all (\<lambda>t. 0 \<le> cap_of [''A'' \<mapsto> 100, ''B'' \<mapsto> 300] t) [''A'', ''B'', ''C'']"
    by (simp add: cap_of_def)
  have s: "{t \<in> set [''A'', ''B'', ''C'']. available [''A'' \<mapsto> 100, ''B'' \<mapsto> 300] t}
             = {''A'', ''B''}"
    by (auto simp: available_def)
  have inc: "included [''A'' \<mapsto> 100, ''B'' \<mapsto> 300] [''A'', ''B'', ''C''] = [''A'', ''B'']"
    by (simp add: included_def unique_def add_new_def available_def)
  have tot: "total_cap [''A'' \<mapsto> 100, ''B'' \<mapsto> 300] [''A'', ''B'', ''C''] = 400"
    unfolding total_cap_def s by (simp add: cap_of_def)
  have v: "double_weight 100 400 = Fin 25" "double_weight 300 400 = Fin 75"
    by code_simp+
  have r: "calculate_market_cap_weights [''A'' \<mapsto> 1, ''B'' \<mapsto> 2] [''A'', ''B'']
             = Inr [(''A'', fl_of (3333 / 100)), (''B'', fl_of (6667 / 100))]"
    by code_simp
  have "calculate_market_cap_weights [''A'' \<mapsto> 100, ''B'' \<mapsto> 300] [''A'', ''B'', ''C'']
          = Inr [(''A'', double_weight 100 400), (''B'', double_weight 300 400)]"
    using weights_are_normalised_caps [OF h] unfolding inc tot by (simp add: cap_of_def)
  then show ?thesis
    using h inc tot v r by simp
qed

text \<open>
  Claim C7 as stated fails at a tie. With the market caps A: 23 and B: 137 the exact weight
  of A is 14.375, which rounds to 14.38; the product \<open>(23 / 160) * 100\<close> is a double just
  below 14.375, and the code returns the double nearest to 14.37.
\<close>

theorem weight_tie_counterexample:
  "calculate_market_cap_weights [''A'' \<mapsto> 23, ''B'' \<mapsto> 137] [''A'', ''B'']
     = Inr [(''A'', fl_of (1437 / 100)), (''B'', fl_of (8562 / 100))]
   \<and> round2 (100 * 23 / 160) = 1438 / 100
   \<and> fl_of (1437 / 100) \<noteq> Fin (1438 / 100)
   \<and> fl_of (1437 / 100) \<noteq> fl_of (1438 / 100)"
  by code_simp

text \<open>
  Claim C9. A ticker whose reported market cap is exactly 0 is left out like one whose
  market cap is absent: the result is the one computed without that ticker in the input
  list, so it adds nothing to the total, and no pair of the output carries it.
\<close>

theorem zero_cap_ticker_excluded:
  assumes "info t = Some 0"
  shows "calculate_market_cap_weights info tickers
           = calculate_market_cap_weights info (removeAll t tickers)
         \<and> t \<notin> set (map fst (collect_caps info tickers []))
         \<and> (case calculate_market_cap_weights info tickers of
               Inl e \<Rightarrow> True
             | Inr ws \<Rightarrow> t \<notin> set (map fst ws))"
proof -
  have na: "\<not> available info t"
    using assms by (simp add: available_def)
  have "filter (available info) (removeAll t tickers) = filter (available info) tickers"
    using na by (induction tickers) auto
  then have same: "collect_caps info (removeAll t tickers) [] = collect_caps info tickers []"
    by (simp add: market_caps_included included_def)
  have keys: "set (map fst (collect_caps info tickers [])) = {k \<in> set tickers. available info k}"
    by (simp add: market_caps_included comp_def set_included)
  have out: "t \<notin> set (map fst (collect_caps info tickers []))"
    unfolding keys using na by simp
  have "calculate_market_cap_weights info tickers
          = calculate_market_cap_weights info (removeAll t tickers)"
    by (simp add: calculate_market_cap_weights_def same)
  moreover have "case calculate_market_cap_weights info tickers of
                   Inl e \<Rightarrow> True
                 | Inr ws \<Rightarrow> t \<notin> set (map fst ws)"
    using out ticker_weights_keys [of "sum_list (map snd (collect_caps info tickers []))"
        "collect_caps info tickers []"]
    by (simp add: calculate_market_cap_weights_def Let_def split: sum.splits)
  ultimately show ?thesis
    using out by simp
qed

theorem zero_cap_ticker_excluded_witness:
  "[''A'' \<mapsto> 100, ''Z'' \<mapsto> 0, ''B'' \<mapsto> 300] ''Z'' = Some (0 :: int)
   \<and> calculate_market_cap_weights [''A'' \<mapsto> 100, ''Z'' \<mapsto> 0, ''B'' \<mapsto> 300] [''A'', ''Z'', ''B'']
     = calculate_market_cap_weights [''A'' \<mapsto> 100, ''Z'' \<mapsto> 0, ''B'' \<mapsto> 300] [''A'', ''B'']
   \<and> ''Z'' \<notin> set (map fst (collect_caps [''A'' \<mapsto> 100, ''Z'' \<mapsto> 0, ''B'' \<mapsto> 300]
                              [''A'', ''Z'', ''B''] []))"
proof -
  have h: "[''A'' \<mapsto> 100, ''Z'' \<mapsto> 0, ''B'' \<mapsto> 300] ''Z'' = Some (0 :: int)"
    by simp
  show ?thesis
    using h zero_cap_ticker_excluded
        [of "[''A'' \<mapsto> 100, ''Z'' \<mapsto> 0, ''B'' \<mapsto> 300]" "''Z''" "[''A'', ''Z'', ''B'']"]
    by simp
qed

lemma collect_caps_unavailable:
  "list_all (\<lambda>t. \<not> available info t) tickers \<Longrightarrow> collect_caps info tickers acc = acc"
  by (induction tickers arbitrary: acc) (auto simp: available_def split: option.splits)

text \<open>
  Claim C10. When no ticker of the input list has an available market cap (absent or zero),
  the empty input list included, the weight calculator returns the empty list of pairs: the
  total is 0, and no division by it is ever evaluated.
\<close>

theorem no_available_cap_gives_empty:
  "list_all (\<lambda>t. \<not> available info t) tickers \<Longrightarrow>
     calculate_market_cap_weights info tickers = Inr []"
  by (simp add: calculate_market_cap_weights_def collect_caps_unavailable)

theorem no_available_cap_gives_empty_witness:
  "list_all (\<lambda>t. \<not> available [''A'' \<mapsto> 0] t) [''A'', ''B'']
   \<and> calculate_market_cap_weights [''A'' \<mapsto> 0] [''A'', ''B''] = Inr []
   \<and> calculate_market_cap_weights Map.empty [] = Inr []"
proof -
  have h: "list_all (\<lambda>t. \<not> available [''A'' \<mapsto> 0] t) [''A'', ''B'']"
    by (simp add: available_def)
  have e: "list_all (\<lambda>t. \<not> available Map.empty t) []"
    by simp
  show ?thesis
    using h no_available_cap_gives_empty [OF h] no_available_cap_gives_empty [OF e] by simp
qed

section \<open>Properties of the ticker sources and of the universe builder\<close>

lemma dow_jones_failure_is_empty:
  "get dow_jones_url = Inl e \<Longrightarrow> get_dow_jones_tickers get = []"
  by (simp add: get_dow_jones_tickers_def)

lemma dow_jones_status_is_empty:
  "get dow_jones_url = Inr r \<Longrightarrow> status_code r \<noteq> 200 \<Longrightarrow> get_dow_jones_tickers get = []"
  by (simp add: get_dow_jones_tickers_def)

lemma sp500_failure_ends_run:
  "get sp500_url = Inl e \<Longrightarrow> build_universe order get = Inl e"
  by (simp add: build_universe_def fetch_sp500_tickers_def)

lemma nasdaq_failure_ends_run:
  "fetch_sp500_tickers get = Inr sp \<Longrightarrow> get nasdaq_100_url = Inl e \<Longrightarrow>
     build_universe order get = Inl e"
  by (simp add: build_universe_def get_nasdaq_100_ticker_symbols_def)

lemma dow_jones_unavailable_run:
  "build_universe (listing [''AAPL'', ''MMM'', ''BRK.B'']) dow_jones_unavailable
     = Inr [''AAPL'', ''MMM'', ''BRK-B'']"
  by (simp add: build_universe_def fetch_sp500_tickers_def get_dow_jones_tickers_def
      get_nasdaq_100_ticker_symbols_def dow_jones_unavailable_def sp500_url_def
      dow_jones_url_def nasdaq_100_url_def sp500_page_def nasdaq_100_page_def
      symbol_table_def universe_def merge_and_deduplicate_dynamic_def listing_def
      normalize_ticker_def replace_dot_def strip_def cell_text_def isspace_def)

text \<open>
  Claim C4, at a failing input. The S&P 500 page answers with status 503 while the Dow
  Jones and Nasdaq-100 pages are served: the two other sources return their symbols, and
  the run ends with the \<open>HTTPError\<close> of \<open>fetch_sp500_tickers\<close> instead of going on with them.
\<close>

theorem sp500_unavailable_ends_run:
  "get_dow_jones_tickers sp500_unavailable = [''MMM'']
   \<and> get_nasdaq_100_ticker_symbols sp500_unavailable = Inr [''AAPL'']
   \<and> fetch_sp500_tickers sp500_unavailable = Inl (HTTPError 503)
   \<and> build_universe order sp500_unavailable = Inl (HTTPError 503)"
  by (simp add: build_universe_def fetch_sp500_tickers_def get_dow_jones_tickers_def
      get_nasdaq_100_ticker_symbols_def sp500_unavailable_def sp500_url_def
      dow_jones_url_def nasdaq_100_url_def dow_jones_page_def nasdaq_100_page_def
      symbol_table_def get_text_strip_def strip_def cell_text_def isspace_def)

lemma normalize_ticker_cases:
  "normalize_ticker t
     = (if t = ''BRK.B'' then ''BRK-B'' else if t = ''BF.B'' then ''BF-B'' else t)"
  by (simp add: normalize_ticker_def replace_dot_def)

lemma normalize_ticker_collision:
  "normalize_ticker x = normalize_ticker y \<Longrightarrow> x \<noteq> y \<Longrightarrow>
     (x = ''BRK.B'' \<and> y = ''BRK-B'') \<or> (x = ''BRK-B'' \<and> y = ''BRK.B'')
     \<or> (x = ''BF.B'' \<and> y = ''BF-B'') \<or> (x = ''BF-B'' \<and> y = ''BF.B'')"
  unfolding normalize_ticker_cases by (simp split: if_splits)

lemma inj_on_normalize_ticker:
  "inj_on normalize_ticker S
     = (\<not> (''BRK.B'' \<in> S \<and> ''BRK-B'' \<in> S) \<and> \<not> (''BF.B'' \<in> S \<and> ''BF-B'' \<in> S))"
proof
  assume inj: "inj_on normalize_ticker S"
  have a: "normalize_ticker ''BRK.B'' = normalize_ticker ''BRK-B''"
    by (simp add: normalize_ticker_cases)
  have b: "normalize_ticker ''BF.B'' = normalize_ticker ''BF-B''"
    by (simp add: normalize_ticker_cases)
  have "\<not> (''BRK.B'' \<in> S \<and> ''BRK-B'' \<in> S)"
  proof
    assume "''BRK.B'' \<in> S \<and> ''BRK-B'' \<in> S"
    then have "''BRK.B'' \<in> S" "''BRK-B'' \<in> S"
      by simp_all
    from inj_onD [OF inj a this] have "''BRK.B'' = ''BRK-B''" .
    then show False by simp
  qed
  moreover have "\<not> (''BF.B'' \<in> S \<and> ''BF-B'' \<in> S)"
  proof
    assume "''BF.B'' \<in> S \<and> ''BF-B'' \<in> S"
    then have "''BF.B'' \<in> S" "''BF-B'' \<in> S"
      by simp_all
    from inj_onD [OF inj b this] have "''BF.B'' = ''BF-B''" .
    then show False by simp
  qed
  ultimately show "\<not> (''BRK.B'' \<in> S \<and> ''BRK-B'' \<in> S) \<and> \<not> (''BF.B'' \<in> S \<and> ''BF-B'' \<in> S)"
    by (rule conjI)
next
  assume c: "\<not> (''BRK.B'' \<in> S \<and> ''BRK-B'' \<in> S) \<and> \<not> (''BF.B'' \<in> S \<and> ''BF-B'' \<in> S)"
  show "inj_on normalize_ticker S"
  proof (rule inj_onI)
    fix x y
    assume xy: "x \<in> S" "y \<in> S" "normalize_ticker x = normalize_ticker y"
    show "x = y"
    proof (rule ccontr)
      assume "x \<noteq> y"
      from normalize_ticker_collision [OF xy(3) this]
      consider "x = ''BRK.B'' \<and> y = ''BRK-B''" | "x = ''BRK-B'' \<and> y = ''BRK.B''"
        | "x = ''BF.B'' \<and> y = ''BF-B''" | "x = ''BF-B'' \<and> y = ''BF.B''"
        by argo
      then show False
      proof cases
        case 1 then show ?thesis using c xy(1,2) by simp
      next
        case 2 then show ?thesis using c xy(1,2) by simp
      next
        case 3 then show ?thesis using c xy(1,2) by simp
      next
        case 4 then show ?thesis using c xy(1,2) by simp
      qed
    qed
  qed
qed

text \<open>
  Claim C5, as amended. For any input lists and any iteration order of the merged set: the
  merged list holds every symbol of a source exactly once; the symbols of the universe are
  exactly the normalised symbols of the sources, where \<open>BRK.B\<close> and \<open>BF.B\<close> become \<open>BRK-B\<close>
  and \<open>BF-B\<close> and every other symbol is unchanged; and the universe is free of duplicates
  exactly when the sources do not hold a remapped symbol together with its provider form.
\<close>

theorem universe_is_normalised_union:
  assumes "enumerates order (\<Union> (set (map set ticker_lists)))"
  shows "distinct (merge_and_deduplicate_dynamic order ticker_lists)
         \<and> set (merge_and_deduplicate_dynamic order ticker_lists) = \<Union> (set (map set ticker_lists))
         \<and> set (universe order ticker_lists)
             = normalize_ticker ` \<Union> (set (map set ticker_lists))
         \<and> normalize_ticker t
             = (if t = ''BRK.B'' then ''BRK-B'' else if t = ''BF.B'' then ''BF-B'' else t)
         \<and> distinct (universe order ticker_lists)
             = (\<not> (''BRK.B'' \<in> \<Union> (set (map set ticker_lists))
                    \<and> ''BRK-B'' \<in> \<Union> (set (map set ticker_lists)))
                \<and> \<not> (''BF.B'' \<in> \<Union> (set (map set ticker_lists))
                    \<and> ''BF-B'' \<in> \<Union> (set (map set ticker_lists))))"
proof -
  define S where "S = \<Union> (set (map set ticker_lists))"
  have e: "enumerates order S"
    using assms by (simp only: S_def)
  have m: "set (merge_and_deduplicate_dynamic order ticker_lists) = S"
    using e by (simp only: enumerates_def merge_and_deduplicate_dynamic_def S_def [symmetric])
  have dm: "distinct (merge_and_deduplicate_dynamic order ticker_lists)"
    using e by (simp only: enumerates_def merge_and_deduplicate_dynamic_def S_def [symmetric])
  have n: "normalize_ticker t
             = (if t = ''BRK.B'' then ''BRK-B'' else if t = ''BF.B'' then ''BF-B'' else t)"
    by (rule normalize_ticker_cases)
  have "distinct (universe order ticker_lists) = inj_on normalize_ticker S"
    using m dm by (simp add: universe_def distinct_map)
  then have d: "distinct (universe order ticker_lists)
                  = (\<not> (''BRK.B'' \<in> S \<and> ''BRK-B'' \<in> S) \<and> \<not> (''BF.B'' \<in> S \<and> ''BF-B'' \<in> S))"
    by (simp only: inj_on_normalize_ticker)
  have s: "set (universe order ticker_lists) = normalize_ticker ` S"
    using m by (simp add: universe_def)
  show ?thesis
    unfolding S_def [symmetric] using dm m s n d by blast
qed

theorem universe_is_normalised_union_witness:
  "enumerates (listing [''MSFT'', ''BRK.B'', ''AAPL''])
     (\<Union> (set (map set [[''AAPL'', ''MSFT''], [''MSFT''], [''BRK.B'']])))
   \<and> set (universe (listing [''MSFT'', ''BRK.B'', ''AAPL''])
            [[''AAPL'', ''MSFT''], [''MSFT''], [''BRK.B'']])
     = {''AAPL'', ''MSFT'', ''BRK-B''}
   \<and> distinct (universe (listing [''MSFT'', ''BRK.B'', ''AAPL''])
                 [[''AAPL'', ''MSFT''], [''MSFT''], [''BRK.B'']])"
proof -
  have u: "\<Union> (set (map set [[''AAPL'', ''MSFT''], [''MSFT''], [''BRK.B'']]))
             = {''AAPL'', ''MSFT'', ''BRK.B''}"
    by auto
  have h: "enumerates (listing [''MSFT'', ''BRK.B'', ''AAPL''])
             (\<Union> (set (map set [[''AAPL'', ''MSFT''], [''MSFT''], [''BRK.B'']])))"
    unfolding u by (auto simp: enumerates_def listing_def)
  have i: "normalize_ticker ` {''AAPL'', ''MSFT'', ''BRK.B''} = {''AAPL'', ''MSFT'', ''BRK-B''}"
    by (simp add: normalize_ticker_def replace_dot_def)
  show ?thesis
    using h universe_is_normalised_union [OF h, of "''AAPL''"]
    unfolding u i by simp
qed

text \<open>
  Claim C5 as stated fails: with the sources \<open>["BRK.B"]\<close> and \<open>["BRK-B"]\<close> the merged set
  has two elements, both normalise to \<open>BRK-B\<close>, and the universe holds that symbol twice.
\<close>

theorem universe_duplicate_counterexample:
  "enumerates (listing [''BRK.B'', ''BRK-B'']) (\<Union> (set (map set [[''BRK.B''], [''BRK-B'']])))
   \<and> universe (listing [''BRK.B'', ''BRK-B'']) [[''BRK.B''], [''BRK-B'']] = [''BRK-B'', ''BRK-B'']
   \<and> \<not> distinct (universe (listing [''BRK.B'', ''BRK-B'']) [[''BRK.B''], [''BRK-B'']])"
proof -
  have e: "enumerates (listing [''BRK.B'', ''BRK-B''])
             (\<Union> (set (map set [[''BRK.B''], [''BRK-B'']])))"
    by (auto simp: enumerates_def listing_def)
  have u: "universe (listing [''BRK.B'', ''BRK-B'']) [[''BRK.B''], [''BRK-B'']]
             = [''BRK-B'', ''BRK-B'']"
    by (simp add: listing_def universe_def merge_and_deduplicate_dynamic_def
        normalize_ticker_def replace_dot_def)
  show ?thesis
    using e unfolding u by simp
qed

section \<open>Properties of the growth screener\<close>

text \<open>A column read is the list of the values at the row positions, so the mask is the
  list of the ten comparisons evaluated row by row.\<close>

lemma column_values:
  "column df name =
     (if count_list (columns df) name = 1
      then Inr (map (value_at df name) [0..<length (cells df)])
      else if name \<in> set (columns df) then Inl ValueError else Inl (KeyError name))"
proof -
  have "map (\<lambda>row. cell_at (columns df) row name) (cells df)
          = map (value_at df name) [0..<length (cells df)]"
    by (auto simp: value_at_def intro: nth_equalityI)
  moreover have "count_list (columns df) name = 0" if "name \<notin> set (columns df)"
    using that by (simp add: count_list_0_iff)
  moreover have "0 < count_list (columns df) name" if "name \<in> set (columns df)"
    using that by (simp add: count_list_0_iff zero_less_iff_neq_zero)
  ultimately show ?thesis
    by (auto simp: column_def)
qed

lemma shift1_map:
  "shift1 (map g [0..<n]) = map (\<lambda>i. if i = 0 then NaN else g (i - 1)) [0..<n]"
  by (rule nth_equalityI) (auto simp: shift1_def nth_Cons')

lemma growth_values:
  "growth df a =
     (if count_list (columns df) a = 1
      then Inr (map (\<lambda>i. fl_greater (value_at df a i) (shifted_at df a i)) [0..<length (cells df)])
      else if a \<in> set (columns df) then Inl ValueError else Inl (KeyError a))"
  by (simp add: growth_def column_values bind_err_def shift1_map series_gt_def map2_map_map
      shifted_at_def)

lemma ratio_values:
  "ratio df a b =
     (if count_list (columns df) a = 1
      then if count_list (columns df) b = 1
           then Inr (map (ratio_at df a b) [0..<length (cells df)])
           else if b \<in> set (columns df) then Inl ValueError else Inl (KeyError b)
      else if a \<in> set (columns df) then Inl ValueError else Inl (KeyError a))"
  by (simp add: ratio_def column_values bind_err_def series_div_def map2_map_map ratio_at_def)

lemma growth_filter_total:
  assumes "list_all (\<lambda>c. count_list (columns df) c = 1) screen_columns"
  shows "get_growth_filter df = Inr (map (screen_at df) [0..<length (cells df)])"
  using assms
  by (simp add: get_growth_filter_def screen_columns_def growth_values ratio_values
      column_values bind_err_def series_and_def series_lt_def gt_scalar_def lt_scalar_def
      scalar_mult_def map2_map_map screen_at_def comp_def conj_assoc)

lemma growth_filter_cases:
  "get_growth_filter df =
     (case find (\<lambda>c. count_list (columns df) c \<noteq> 1) screen_columns of
        None \<Rightarrow> Inr (map (screen_at df) [0..<length (cells df)])
      | Some c \<Rightarrow> if c \<in> set (columns df) then Inl ValueError else Inl (KeyError c))"
proof (cases "list_all (\<lambda>c. count_list (columns df) c = 1) screen_columns")
  case True
  then have "find (\<lambda>c. count_list (columns df) c \<noteq> 1) screen_columns = None"
    by (simp add: find_None_iff list_all_iff)
  then show ?thesis
    using True by (simp add: growth_filter_total)
next
  case False
  then show ?thesis
    by (simp add: get_growth_filter_def screen_columns_def growth_values ratio_values
      column_values bind_err_def)
qed


lemma count_list_distinct:
  "distinct xs \<Longrightarrow> (count_list xs x = Suc 0) = (x \<in> set xs)"
  by (induction xs) (auto simp: count_list_0_iff)

lemma first_row_screens_false: "\<not> screen_at df 0"
  by (simp add: screen_at_def shifted_at_def fl_greater_def)

lemma fl_less_NaN_right: "fl_less x NaN = False"
  by (cases x) simp_all

lemma screen_at_ratios:
  "screen_at df i \<Longrightarrow> list_all (\<lambda>(a, b). ratio_at df a b i \<noteq> NaN) ratio_criteria"
  unfolding screen_at_def ratio_criteria_def fl_greater_def
  by (simp only: list.pred_inject prod.case simp_thms) (metis fl_less.simps(1) fl_less_NaN_right)

lemma nan_ratio_fails:
  assumes "(a, b) \<in> set ratio_criteria" and "ratio_at df a b i = NaN"
  shows "\<not> screen_at df i"
proof
  assume "screen_at df i"
  then have "list_all (\<lambda>(a, b). ratio_at df a b i \<noteq> NaN) ratio_criteria"
    by (rule screen_at_ratios)
  then have "ratio_at df a b i \<noteq> NaN"
    using assms(1) unfolding list_all_iff by fast
  then show False
    using assms(2) by simp
qed


text \<open>
  Claim C1, at a failing input. Ticker A has periods 1 and 2, ticker B the single period 1,
  and every row meets the eight criteria that need no prior period. The row of B is kept
  when the revenue of A's period 2 is 150 and dropped when it is 600, the row of B being
  the same in both tables: its revenue 500 is compared against the last row of A.
\<close>

theorem cross_ticker_lag_contamination:
  "index (two_ticker_table 150) = [(''A'', 1), (''A'', 2), (''B'', 1)]
   \<and> cells (two_ticker_table 150) ! 2 = cells (two_ticker_table 600) ! 2
   \<and> shifted_at (two_ticker_table 150) ''Total Revenue'' 2 = Fin 150
   \<and> shifted_at (two_ticker_table 600) ''Total Revenue'' 2 = Fin 600
   \<and> get_growth_filter (two_ticker_table 150) = Inr [False, True, True]
   \<and> get_growth_filter (two_ticker_table 600) = Inr [False, False, False]
   \<and> selected_tickers (two_ticker_table 150) = Inr [''A'', ''B'']"
  by code_simp

text \<open>
  Claim C2, at a failing input. Tickers A and B have one period each, so each row is the
  earliest period of its ticker. The row of A is dropped, being the first row of the
  table; the row of B is kept, and B is selected without having a prior period.
\<close>

theorem earliest_period_of_later_ticker_kept:
  "index single_period_table = [(''A'', 1), (''B'', 1)]
   \<and> get_growth_filter single_period_table = Inr [False, True]
   \<and> selected_tickers single_period_table = Inr [''B'']"
  by code_simp

text \<open>
  Claim C3, as amended. On a table whose column labels are distinct the screen raises no
  arithmetic exception, whatever the denominators: it returns a mask with one entry per
  row, or the \<open>KeyError\<close> of a column the table lacks. In the mask a row is false whenever
  one of the six ratios of that row has a null numerator, a null denominator, or a zero
  numerator over a zero denominator.
\<close>

theorem missing_data_screens_false:
  assumes "distinct (columns df)"
  shows "case get_growth_filter df of
           Inl e \<Rightarrow> (\<exists>c. e = KeyError c \<and> c \<in> set screen_columns \<and> c \<notin> set (columns df))
         | Inr keep \<Rightarrow>
             length keep = length (cells df)
             \<and> (\<forall>i < length (cells df). \<forall>(a, b) \<in> set ratio_criteria.
                   value_at df a i = NaN \<or> value_at df b i = NaN
                   \<or> (value_at df a i = Fin 0 \<and> value_at df b i = Fin 0)
                   \<longrightarrow> \<not> keep ! i)"
proof (cases "find (\<lambda>c. count_list (columns df) c \<noteq> 1) screen_columns")
  case None
  have "\<not> screen_at df i"
    if "(a, b) \<in> set ratio_criteria"
      and "value_at df a i = NaN \<or> value_at df b i = NaN
           \<or> (value_at df a i = Fin 0 \<and> value_at df b i = Fin 0)" for a b i
  proof -
    have "ratio_at df a b i = NaN"
      using that(2) by (cases "value_at df a i") (auto simp: ratio_at_def)
    then show ?thesis
      using that(1) by (intro nan_ratio_fails)
  qed
  then show ?thesis
    using None by (auto simp: growth_filter_cases)
next
  case (Some c)
  then have "c \<in> set screen_columns \<and> count_list (columns df) c \<noteq> 1"
    by (auto simp: find_Some_iff)
  then have "c \<in> set screen_columns \<and> c \<notin> set (columns df)"
    using assms by (simp add: count_list_distinct)
  then show ?thesis
    using Some by (simp add: growth_filter_cases)
qed

theorem missing_data_screens_false_witness:
  "distinct (columns null_income_table)
   \<and> get_growth_filter null_income_table = Inr [False, False, True]
   \<and> (''Operating Income'', ''Total Revenue'') \<in> set ratio_criteria
   \<and> value_at null_income_table ''Operating Income'' 1 = NaN
   \<and> 1 < length (cells null_income_table)
   \<and> \<not> [False, False, True] ! 1
   \<and> distinct (columns zero_equity_table)
   \<and> get_growth_filter zero_equity_table = Inr [False, True]"
proof -
  have h: "distinct (columns null_income_table)"
    by (simp add: null_income_table_def screen_columns_def)
  have ev: "get_growth_filter null_income_table = Inr [False, False, True]"
    by code_simp
  have r: "(''Operating Income'', ''Total Revenue'') \<in> set ratio_criteria"
    by (simp add: ratio_criteria_def)
  have n: "value_at null_income_table ''Operating Income'' 1 = NaN"
    by code_simp
  have l: "1 < length (cells null_income_table)"
    by (simp add: null_income_table_def)
  have "\<forall>i < length (cells null_income_table). \<forall>(a, b) \<in> set ratio_criteria.
          value_at null_income_table a i = NaN \<or> value_at null_income_table b i = NaN
          \<or> (value_at null_income_table a i = Fin 0 \<and> value_at null_income_table b i = Fin 0)
          \<longrightarrow> \<not> [False, False, True] ! i"
    using missing_data_screens_false [OF h] unfolding ev by simp
  then have f: "\<not> [False, False, True] ! 1"
    using l r n by blast
  have h2: "distinct (columns zero_equity_table)"
    by (simp add: zero_equity_table_def screen_columns_def)
  have ev2: "get_growth_filter zero_equity_table = Inr [False, True]"
    by code_simp
  show ?thesis
    using h ev r n l f h2 ev2 by simp
qed

text \<open>
  Claim C3 as stated fails for a zero denominator. In the second row Stockholders Equity
  is 0 with a negative Net Debt and a positive Net Income: the two ratios are minus and
  plus infinity, both comparisons hold, and the row is kept.
\<close>

theorem zero_denominator_counterexample:
  "value_at zero_equity_table ''Stockholders Equity'' 1 = Fin 0
   \<and> ratio_at zero_equity_table ''Net Debt'' ''Stockholders Equity'' 1 = NInf
   \<and> ratio_at zero_equity_table ''Net Income'' ''Stockholders Equity'' 1 = PInf
   \<and> get_growth_filter zero_equity_table = Inr [False, True]"
  by code_simp




section \<open>Properties of the statement assembler\<close>

lemma reindex_single:
  "columns f = [p] \<Longrightarrow> reindex [p] f = map (\<lambda>row. [first_cell row]) (cells f)"
  by (auto simp: reindex_def cell_at_def first_cell_def split: list.splits)

lemma reindex_empty:
  "cells f = [] \<Longrightarrow> reindex cols f = []"
  by (simp add: reindex_def)

lemma concat_statements:
  assumes "list_all (\<lambda>f. columns f = [p] \<or> (columns f = [] \<and> cells f = [])) [a, b, c]"
    and "list_ex (\<lambda>f. columns f = [p]) [a, b, c]"
  shows "\<exists>rows. concat_frames [a, b, c]
            = Inr \<lparr>index = index a @ index b @ index c, columns = [p], cells = rows\<rparr>
          \<and> map first_cell rows = map first_cell (cells a @ cells b @ cells c)"
  using assms
  by (auto simp: concat_frames_def unique_def add_new_def reindex_single reindex_empty
      comp_def first_cell_def)

text \<open>
  Claim C8. For a single ticker whose three statement tables hold one reporting period
  \<open>p\<close> (each table has the one column \<open>p\<close> or is empty, and not all are empty), the
  combined table has exactly one row: it is labelled with the ticker and \<open>p\<close>, its columns
  are the line items of the three tables, and under each line item stands that item's
  value. With Total Revenue 100 and Operating Income 20 for ticker X the row is X, the
  period, 100, 20.
\<close>

theorem single_period_assembly:
  assumes "Ticker symbol = Inr st"
    and "list_all (\<lambda>f. columns f = [p] \<or> (columns f = [] \<and> cells f = []))
           [financials st, balancesheet st, cashflow st]"
    and "list_ex (\<lambda>f. columns f = [p]) [financials st, balancesheet st, cashflow st]"
  shows "fetch_fundamental_data Ticker [symbol]
           = Inr \<lparr>index = [(symbol, p)],
                  columns = index (financials st) @ index (balancesheet st) @ index (cashflow st),
                  cells = [map first_cell
                            (cells (financials st) @ cells (balancesheet st) @ cells (cashflow st))]\<rparr>"
proof -
  obtain rows where r: "concat_frames [financials st, balancesheet st, cashflow st]
            = Inr \<lparr>index = index (financials st) @ index (balancesheet st) @ index (cashflow st),
                   columns = [p], cells = rows\<rparr>"
     "map first_cell rows
        = map first_cell (cells (financials st) @ cells (balancesheet st) @ cells (cashflow st))"
    using concat_statements [OF assms(2,3)] by blast
  show ?thesis
    using assms(1) r
    by (simp add: fetch_fundamental_data_def T_def set_ticker_index_def concat_frames_def)
qed

theorem single_period_assembly_witness:
  "one_period_provider ''X''
     = Inr \<lparr>financials = \<lparr>index = [''Total Revenue'', ''Operating Income''],
                           columns = [''2023-12-31''], cells = [[Fin 100], [Fin 20]]\<rparr>,
            balancesheet = \<lparr>index = [], columns = [], cells = []\<rparr>,
            cashflow = \<lparr>index = [], columns = [], cells = []\<rparr>\<rparr>
   \<and> fetch_fundamental_data one_period_provider [''X'']
     = Inr \<lparr>index = [(''X'', ''2023-12-31'')],
            columns = [''Total Revenue'', ''Operating Income''],
            cells = [[Fin 100, Fin 20]]\<rparr>"
proof -
  let ?st = "\<lparr>financials = \<lparr>index = [''Total Revenue'', ''Operating Income''],
                           columns = [''2023-12-31''], cells = [[Fin 100], [Fin 20]]\<rparr>,
            balancesheet = \<lparr>index = [], columns = [], cells = []\<rparr>,
            cashflow = \<lparr>index = [], columns = [], cells = []\<rparr>\<rparr>"
  have h1: "one_period_provider ''X'' = Inr ?st"
    by (simp add: one_period_provider_def)
  have h2: "list_all (\<lambda>f. columns f = [''2023-12-31''] \<or> (columns f = [] \<and> cells f = []))
              [financials ?st, balancesheet ?st, cashflow ?st]"
    by simp
  have h3: "list_ex (\<lambda>f. columns f = [''2023-12-31''])
              [financials ?st, balancesheet ?st, cashflow ?st]"
    by simp
  show ?thesis
    using h1
      single_period_assembly [of one_period_provider "''X''" ?st "''2023-12-31''", OF h1 h2 h3]
    by (simp add: first_cell_def)
qed

text \<open>
  The assembler and the screen in sequence, for a provider with ticker A (two periods) and
  ticker B (one period): the rows are those of A followed by the row of B, and the
  selection holds B.
\<close>

lemma assembled_rows_cross_tickers:
  "bind_err (fetch_fundamental_data two_ticker_provider [''A'', ''B''])
     (\<lambda>final_df. Inr (index final_df))
     = Inr [(''A'', 1), (''A'', 2), (''B'', 1)]
   \<and> bind_err (fetch_fundamental_data two_ticker_provider [''A'', ''B'']) get_growth_filter
     = Inr [False, True, True]
   \<and> bind_err (fetch_fundamental_data two_ticker_provider [''A'', ''B'']) selected_tickers
     = Inr [''A'', ''B'']"
  by code_simp


end
